theory Spec2Isabelle
  imports Complex_Main "HOL-Library.Word"
begin

unbundle bit_operations_syntax

section \<open>Python values and failures\<close>

text \<open>
  The exceptions that the modelled code of \<^verbatim>\<open>chaosgame.py\<close> can raise.
  A raising call is the value \<open>Inl e\<close>; a call that returns \<open>x\<close> is \<open>Inr x\<close>.
  Python floats are modelled as reals (exact arithmetic), Python integers as \<open>int\<close>.
\<close>

datatype error = ValueError | IndexError | TypeError | AttributeError | KeyError

type_synonym point = "real \<times> real"

text \<open>\<^verbatim>\<open>xs[i]\<close> for an integer \<open>i\<close>: negative indices count from the end, an index
  out of range raises IndexError.\<close>

definition py_index :: "'a list \<Rightarrow> int \<Rightarrow> error + 'a" where
  "py_index xs i =
     (if 0 \<le> i \<and> i < int (length xs) then Inr (xs ! nat i)
      else if - int (length xs) \<le> i \<and> i < 0 then Inr (xs ! nat (i + int (length xs)))
      else Inl IndexError)"

text \<open>\<^verbatim>\<open>xs[i:]\<close>: a negative start counts from the end, and the start is clipped
  to the list, so that a slice never raises.\<close>

definition py_slice_from :: "'a list \<Rightarrow> int \<Rightarrow> 'a list" where
  "py_slice_from xs i =
     (let n = int (length xs); j = (if i < 0 then max (i + n) 0 else min i n)
      in drop (nat j) xs)"

section \<open>The cyclic rotation\<close>

text \<open>
  \<^verbatim>\<open>def lcyc(N, n, k): return ((n >> (N-k)) | (n << k)) & ((1 << N) - 1)\<close>

  Python raises ValueError (negative shift count) when a shift amount is negative;
  the three shifts are by \<open>N - k\<close>, \<open>k\<close> and \<open>N\<close>.
\<close>

definition lcyc :: "int \<Rightarrow> int \<Rightarrow> int \<Rightarrow> error + int" where
  "lcyc N n k =
     (if N - k < 0 \<or> k < 0 \<or> N < 0 then Inl ValueError
      else Inr ((drop_bit (nat (N - k)) n OR push_bit (nat k) n) AND (push_bit (nat N) 1 - 1)))"


section \<open>Transformations\<close>

text \<open>
  \<^verbatim>\<open>class Transformation\<close> with its fields \<^verbatim>\<open>scale\<close>, \<^verbatim>\<open>rotation\<close>,
  \<^verbatim>\<open>prob\<close>, and its method \<^verbatim>\<open>transform(self, p1, p2)\<close>, which rebinds
  \<^verbatim>\<open>p2n\<close> four times: subtract \<open>p1\<close>, scale, rotate, add \<open>p1\<close>.
\<close>

record Transformation =
  scale :: real
  rotation :: real
  prob :: real

definition transform :: "Transformation \<Rightarrow> point \<Rightarrow> point \<Rightarrow> point" where
  "transform t p1 p2 =
     (let a = (fst p2 - fst p1, snd p2 - snd p1);
          b = (scale t * fst a, scale t * snd a);
          c = (fst b * cos (rotation t) - snd b * sin (rotation t),
               fst b * sin (rotation t) + snd b * cos (rotation t))
      in (fst c + fst p1, snd c + snd p1))"

text \<open>
  The contraction as the specification words it, for comparison with the code:
  translate \<open>from\<close> into \<open>anchor\<close>-relative coordinates, scale, rotate, translate
  back, that is \<open>anchor + scale * R(rotation) * (from - anchor)\<close>.
\<close>

definition spec_apply :: "Transformation \<Rightarrow> point \<Rightarrow> point \<Rightarrow> point" where
  "spec_apply t anchor from =
     (fst anchor + (scale t * (fst from - fst anchor) * cos (rotation t)
                     - scale t * (snd from - snd anchor) * sin (rotation t)),
      snd anchor + (scale t * (fst from - fst anchor) * sin (rotation t)
                     + scale t * (snd from - snd anchor) * cos (rotation t)))"

section \<open>Random draws\<close>

text \<open>
  The module-level generator is an explicit sequence \<open>src\<close> of the outputs of the
  basic generator, each meant to lie in \<open>[0, 1)\<close>, with a position that every draw
  advances by one. \<^verbatim>\<open>random()\<close> returns the next output; \<^verbatim>\<open>randint(a, b)\<close>
  maps the next output onto the integers \<open>a..b\<close> and raises ValueError when the
  range is empty (\<open>b < a\<close>), before drawing.
\<close>

type_synonym rng = "nat \<Rightarrow> real"

definition py_random :: "rng \<Rightarrow> nat \<Rightarrow> real \<times> nat" where
  "py_random src i = (src i, Suc i)"

definition randint :: "rng \<Rightarrow> nat \<Rightarrow> int \<Rightarrow> int \<Rightarrow> error + int \<times> nat" where
  "randint src i a b =
     (if b < a then Inl ValueError
      else Inr (a + \<lfloor>src i * of_int (b - a + 1)\<rfloor>, Suc i))"

section \<open>The game object\<close>

text \<open>
  The four classes. The attributes that only a subclass sets (\<^verbatim>\<open>hist_len\<close> and the
  bit mask \<^verbatim>\<open>excluded\<close>) are the arguments of its constructor here.
\<close>

datatype game_class =
    ChaosGame
  | ChaosGameHistExc int int
  | ChaosGameHistExc2 int
  | ChaosGameTargetTransform

datatype quality = QualityName string | QualitySize real

record session =
  klass :: game_class
  point_size :: real
  num_targets :: int
  transformations :: "Transformation list"
  coloring :: "real list list"
  vertices :: "point list"
  points :: "point list"
  colors :: "(real \<times> real \<times> real) list"
  verts :: "int list option"

text \<open>The preset table of \<^verbatim>\<open>__init__\<close>; a string that is not a key raises KeyError.\<close>

definition point_size_of :: "quality \<Rightarrow> error + real" where
  "point_size_of q =
     (case q of
        QualityName name \<Rightarrow>
          (case map_of [(''rough'', 1), (''low'', 1/2), (''medium'', 1/5), (''fine'', 1/20)] name of
             None \<Rightarrow> Inl KeyError
           | Some x \<Rightarrow> Inr x)
      | QualitySize x \<Rightarrow> Inr x)"

definition make_vertices :: "int \<Rightarrow> point list" where
  "make_vertices N =
     (if N mod 2 = 0
      then map (\<lambda>i. (cos (2 * pi / of_int N * of_int i), sin (2 * pi / of_int N * of_int i))) [0..N - 1]
      else map (\<lambda>i. (cos (pi / 2 - 2 * pi / of_int N * of_int i),
                      sin (pi / 2 - 2 * pi / of_int N * of_int i))) [0..N - 1])"

text \<open>
  \<^verbatim>\<open>ChaosGame.__init__\<close>. The figure belongs to matplotlib and is not part of the
  state modelled here; of the plotting calls, the one whose failure depends on the
  arguments is modelled: \<^verbatim>\<open>self.ax.scatter(*zip(*self.vertices), ...)\<close> is called
  with no \<open>x\<close> and \<open>y\<close> when the vertex list is empty, that is when
  \<open>num_targets \<le> 0\<close>, and raises TypeError. The preset lookup comes first, the
  scatter call after the vertices are computed. The attribute \<^verbatim>\<open>verts\<close> does not
  exist until \<^verbatim>\<open>generate_points\<close> sets it.
\<close>

definition init_as :: "game_class \<Rightarrow> quality \<Rightarrow> int \<Rightarrow> Transformation list \<Rightarrow> real list list
    \<Rightarrow> error + session" where
  "init_as c q N ts col =
     (case point_size_of q of
        Inl e \<Rightarrow> Inl e
      | Inr sz \<Rightarrow>
          if make_vertices N = [] then Inl TypeError
          else Inr \<lparr>klass = c, point_size = sz, num_targets = N, transformations = ts,
                    coloring = col, vertices = make_vertices N, points = [(0, 0)], colors = [],
                    verts = None\<rparr>)"

definition ChaosGame_init :: "quality \<Rightarrow> int \<Rightarrow> Transformation list \<Rightarrow> real list list
    \<Rightarrow> error + session" where
  "ChaosGame_init q N ts col = init_as ChaosGame q N ts col"

text \<open>\<^verbatim>\<open>sum(2**i for i in excluded)\<close>, for a list of vertex offsets.\<close>

definition excluded_mask :: "nat list \<Rightarrow> int" where
  "excluded_mask excluded = sum_list (map (\<lambda>i. 2 ^ i) excluded)"

definition ChaosGameHistExc_init :: "int \<Rightarrow> nat list \<Rightarrow> quality \<Rightarrow> int \<Rightarrow> Transformation list
    \<Rightarrow> real list list \<Rightarrow> error + session" where
  "ChaosGameHistExc_init hist_len excluded q N ts col =
     init_as (ChaosGameHistExc hist_len (excluded_mask excluded)) q N ts col"

definition ChaosGameHistExc2_init :: "nat list \<Rightarrow> quality \<Rightarrow> int \<Rightarrow> Transformation list
    \<Rightarrow> real list list \<Rightarrow> error + session" where
  "ChaosGameHistExc2_init excluded q N ts col =
     init_as (ChaosGameHistExc2 (if length excluded > 0 then excluded_mask excluded else 0))
       q N ts col"

definition ChaosGameTargetTransform_init :: "quality \<Rightarrow> int \<Rightarrow> Transformation list
    \<Rightarrow> real list list \<Rightarrow> error + session" where
  "ChaosGameTargetTransform_init q N ts col = init_as ChaosGameTargetTransform q N ts col"

section \<open>Choosing a vertex\<close>

text \<open>\<^verbatim>\<open>[i for i in range(N) if not (exc & (1 << i))]\<close>\<close>

definition verts_avail :: "int \<Rightarrow> int \<Rightarrow> int list" where
  "verts_avail N exc = filter (\<lambda>i. exc AND push_bit (nat i) 1 = 0) [0..N - 1]"

text \<open>
  The loop of \<^verbatim>\<open>ChaosGameHistExc.choose_vertex\<close>: one iteration for each element
  of the slice \<^verbatim>\<open>verts[-hist_len:]\<close>; the element itself is not used, every
  iteration rotates by \<^verbatim>\<open>verts[-1]\<close>.
\<close>

fun exc_loop :: "int \<Rightarrow> int \<Rightarrow> int list \<Rightarrow> int list \<Rightarrow> int \<Rightarrow> error + int" where
  "exc_loop N e vs [] exc = Inr exc"
| "exc_loop N e vs (x # xs) exc =
     (case py_index vs (- 1) of
        Inl er \<Rightarrow> Inl er
      | Inr l \<Rightarrow>
          (case lcyc N e l of
             Inl er \<Rightarrow> Inl er
           | Inr r \<Rightarrow> exc_loop N e vs xs (exc OR r)))"

text \<open>\<^verbatim>\<open>verts_avail[randint(0, len(verts_avail)-1)]\<close>\<close>

definition pick_avail :: "int list \<Rightarrow> rng \<Rightarrow> nat \<Rightarrow> error + int \<times> nat" where
  "pick_avail avail src i =
     (case randint src i 0 (int (length avail) - 1) of
        Inl er \<Rightarrow> Inl er
      | Inr (r, i') \<Rightarrow>
          (case py_index avail r of Inl er \<Rightarrow> Inl er | Inr v \<Rightarrow> Inr (v, i')))"

text \<open>\<^verbatim>\<open>choose_vertex\<close>, dispatched on the class; \<open>vs\<close> is \<^verbatim>\<open>self.verts\<close>.\<close>

definition choose_vertex :: "game_class \<Rightarrow> int \<Rightarrow> int list \<Rightarrow> rng \<Rightarrow> nat \<Rightarrow> error + int \<times> nat" where
  "choose_vertex c N vs src i =
     (case c of
        ChaosGameHistExc hist_len e \<Rightarrow>
          (case exc_loop N e vs (py_slice_from vs (- hist_len)) 0 of
             Inl er \<Rightarrow> Inl er
           | Inr exc \<Rightarrow> pick_avail (verts_avail N exc) src i)
      | ChaosGameHistExc2 e \<Rightarrow>
          (case py_index vs (- 1) of
             Inl er \<Rightarrow> Inl er
           | Inr a \<Rightarrow>
               (case py_index vs (- 2) of
                  Inl er \<Rightarrow> Inl er
                | Inr b \<Rightarrow>
                    if a = b
                    then (case lcyc N e a of
                            Inl er \<Rightarrow> Inl er
                          | Inr exc \<Rightarrow> pick_avail (verts_avail N exc) src i)
                    else randint src i 0 (N - 1)))
      | _ \<Rightarrow> randint src i 0 (N - 1))"

section \<open>Choosing a transformation\<close>

text \<open>
  The loop of \<^verbatim>\<open>ChaosGame.choose_transform\<close> over the list, with the remaining
  \<open>p\<close>. Falling off the end of the loop is Python's implicit \<^verbatim>\<open>return None\<close>.
\<close>

fun walk_transforms :: "real \<Rightarrow> Transformation list \<Rightarrow> Transformation option" where
  "walk_transforms p [] = None"
| "walk_transforms p (t # ts) = (if p < prob t then Some t else walk_transforms (p - prob t) ts)"

text \<open>
  The argument that \<^verbatim>\<open>generate_points\<close> hands to \<^verbatim>\<open>choose_transform\<close> is
  dynamically typed: an integer or a pair of coordinates. Indexing a list with a
  tuple raises TypeError.
\<close>

datatype pyarg = ArgInt int | ArgPoint point

definition choose_transform :: "game_class \<Rightarrow> Transformation list \<Rightarrow> pyarg \<Rightarrow> rng \<Rightarrow> nat
    \<Rightarrow> error + Transformation option \<times> nat" where
  "choose_transform c ts vert src i =
     (case c of
        ChaosGameTargetTransform \<Rightarrow>
          (case vert of
             ArgInt k \<Rightarrow> (case py_index ts k of Inl er \<Rightarrow> Inl er | Inr t \<Rightarrow> Inr (Some t, i))
           | ArgPoint xy \<Rightarrow> Inl TypeError)
      | _ \<Rightarrow> (case py_random src i of (p, i') \<Rightarrow> Inr (walk_transforms p ts, i')))"

section \<open>Generating points\<close>

text \<open>
  One iteration of the first loop of \<^verbatim>\<open>generate_points\<close>, on the attributes it
  changes (\<^verbatim>\<open>verts\<close>, \<^verbatim>\<open>points\<close>) and the position in the random sequence.
  Calling \<^verbatim>\<open>trans.transform\<close> on \<^verbatim>\<open>None\<close> raises AttributeError.
\<close>

definition step :: "session \<Rightarrow> rng \<Rightarrow> int list \<times> point list \<times> nat
    \<Rightarrow> error + int list \<times> point list \<times> nat" where
  "step s src st =
     (case st of (vs, ps, i) \<Rightarrow>
       (case choose_vertex (klass s) (num_targets s) vs src i of
          Inl er \<Rightarrow> Inl er
        | Inr (v, i1) \<Rightarrow>
            (let vs' = py_slice_from vs 1 @ [v] in
             (case py_index vs' (- 1) of
                Inl er \<Rightarrow> Inl er
              | Inr vi \<Rightarrow>
                  (case py_index (vertices s) vi of
                     Inl er \<Rightarrow> Inl er
                   | Inr last_vert \<Rightarrow>
                       (case choose_transform (klass s) (transformations s) (ArgPoint last_vert) src i1 of
                          Inl er \<Rightarrow> Inl er
                        | Inr (None, i2) \<Rightarrow> Inl AttributeError
                        | Inr (Some tr, i2) \<Rightarrow>
                            (case py_index ps (- 1) of
                               Inl er \<Rightarrow> Inl er
                             | Inr lp \<Rightarrow> Inr (vs', ps @ [transform tr lp last_vert], i2))))))))"

fun gen_loop :: "session \<Rightarrow> rng \<Rightarrow> nat \<Rightarrow> int list \<times> point list \<times> nat
    \<Rightarrow> error + int list \<times> point list \<times> nat" where
  "gen_loop s src 0 st = Inr st"
| "gen_loop s src (Suc k) st =
     (case step s src st of Inl er \<Rightarrow> Inl er | Inr st' \<Rightarrow> gen_loop s src k st')"

text \<open>The colour of one point: the body of the second loop of \<^verbatim>\<open>generate_points\<close>.\<close>

definition corner :: "real list list \<Rightarrow> int \<Rightarrow> int \<Rightarrow> error + real" where
  "corner col j i = (case py_index col j of Inl er \<Rightarrow> Inl er | Inr c \<Rightarrow> py_index c i)"

definition channel :: "real list list \<Rightarrow> point \<Rightarrow> int \<Rightarrow> error + real" where
  "channel col point i =
     (case corner col 0 i of
        Inl er \<Rightarrow> Inl er
      | Inr c0 \<Rightarrow>
          (case corner col 1 i of
             Inl er \<Rightarrow> Inl er
           | Inr c1 \<Rightarrow>
               (case corner col 2 i of
                  Inl er \<Rightarrow> Inl er
                | Inr c2 \<Rightarrow>
                    (case corner col 3 i of
                       Inl er \<Rightarrow> Inl er
                     | Inr c3 \<Rightarrow>
                         Inr (((c0 * (1 - snd point) + c1 * snd point) * fst point
                               + (c2 * (1 - snd point) + c3 * snd point) * (1 - fst point))
                              / 256)))))"

definition color_of :: "real list list \<Rightarrow> point \<Rightarrow> error + real \<times> real \<times> real" where
  "color_of col p =
     (let point = ((fst p + 1) / 2, (snd p + 1) / 2) in
      (case channel col point 0 of
         Inl er \<Rightarrow> Inl er
       | Inr r \<Rightarrow>
           (case channel col point 1 of
              Inl er \<Rightarrow> Inl er
            | Inr g \<Rightarrow>
                (case channel col point 2 of
                   Inl er \<Rightarrow> Inl er
                 | Inr b \<Rightarrow> Inr (r, g, b)))))"

fun colors_of :: "real list list \<Rightarrow> point list \<Rightarrow> error + (real \<times> real \<times> real) list" where
  "colors_of col [] = Inr []"
| "colors_of col (p # ps) =
     (case color_of col p of
        Inl er \<Rightarrow> Inl er
      | Inr c \<Rightarrow> (case colors_of col ps of Inl er \<Rightarrow> Inl er | Inr cs \<Rightarrow> Inr (c # cs)))"

text \<open>
  \<^verbatim>\<open>generate_points(self, n)\<close>: keep only the last point, empty the colours, set
  \<^verbatim>\<open>verts\<close> to \<^verbatim>\<open>[0, 0, 0]\<close>, run \<^verbatim>\<open>range(n)\<close> iterations, then colour every
  point of the list. The result is the object after the call and the position reached
  in the random sequence. Plotting is not modelled.
\<close>

definition generate_points :: "session \<Rightarrow> rng \<Rightarrow> nat \<Rightarrow> int \<Rightarrow> error + session \<times> nat" where
  "generate_points s src i n =
     (case gen_loop s src (nat n) ([0, 0, 0], py_slice_from (points s) (- 1), i) of
        Inl er \<Rightarrow> Inl er
      | Inr (vs, ps, i') \<Rightarrow>
          (case colors_of (coloring s) ps of
             Inl er \<Rightarrow> Inl er
           | Inr cs \<Rightarrow> Inr (s\<lparr>points := ps, colors := cs, verts := Some vs\<rparr>, i')))"

section \<open>Sequences of calls\<close>

text \<open>
  The script constructs an object and calls \<^verbatim>\<open>generate_points\<close> on it, then calls
  it again for every number the user enters. An exception ends the sequence.
  \<open>generate_after\<close> is the first call on a freshly constructed object,
  \<open>generate_again\<close> a further call on the object the previous call left, and
  \<open>points_of\<close>, \<open>colors_of_result\<close> and \<open>verts_of\<close> read the attributes afterwards.
\<close>

definition generate_after :: "error + session \<Rightarrow> rng \<Rightarrow> nat \<Rightarrow> int \<Rightarrow> error + session \<times> nat" where
  "generate_after r src i n = (case r of Inl er \<Rightarrow> Inl er | Inr s \<Rightarrow> generate_points s src i n)"


definition points_of :: "error + session \<times> nat \<Rightarrow> error + point list" where
  "points_of r = (case r of Inl er \<Rightarrow> Inl er | Inr (s, i) \<Rightarrow> Inr (points s))"

definition colors_of_result :: "error + session \<times> nat \<Rightarrow> error + (real \<times> real \<times> real) list" where
  "colors_of_result r = (case r of Inl er \<Rightarrow> Inl er | Inr (s, i) \<Rightarrow> Inr (colors s))"

definition verts_of :: "error + session \<times> nat \<Rightarrow> error + int list option" where
  "verts_of r = (case r of Inl er \<Rightarrow> Inl er | Inr (s, i) \<Rightarrow> Inr (verts s))"


section \<open>Construction\<close>

lemma make_vertices_Nil: "(make_vertices N = []) = (N \<le> 0)"
  by (auto simp add: make_vertices_def)

lemma init_as_vertices:
  assumes "1 \<le> N"
  shows "init_as c q N ts col =
     (case point_size_of q of
        Inl e \<Rightarrow> Inl e
      | Inr sz \<Rightarrow>
          Inr \<lparr>klass = c, point_size = sz, num_targets = N, transformations = ts,
               coloring = col, vertices = make_vertices N, points = [(0, 0)], colors = [],
               verts = None\<rparr>)"
  using assms by (simp add: init_as_def make_vertices_Nil split: sum.splits)

section \<open>The cyclic rotation is a rotation\<close>

lemma bit_above_width:
  fixes n :: int
  assumes "0 \<le> n" "n < 2 ^ w" "w \<le> j"
  shows "\<not> bit n j"
proof -
  have "(2::int) ^ w \<le> 2 ^ j"
    using assms(3) by (simp add: power_increasing)
  with assms(2) have "n < 2 ^ j" by linarith
  with assms(1) show ?thesis by (simp add: bit_iff_odd)
qed

lemma mod_wrap_once:
  fixes a N :: int
  assumes "N \<le> a" "a < 2 * N"
  shows "a mod N = a - N"
proof -
  have "a mod N = (a - N) mod N" by (simp only: minus_mod_self2)
  also have "\<dots> = a - N" using assms by (intro mod_pos_pos_trivial) simp_all
  finally show ?thesis .
qed

text \<open>
  Claim C7. For \<open>N \<ge> 1\<close>, an \<open>N\<close>-bit mask \<open>n\<close> and \<open>0 \<le> k \<le> N\<close>, \<open>lcyc N n k\<close>
  returns the circular left rotation of \<open>n\<close> by \<open>k\<close> within \<open>N\<close> bits: bit
  \<open>(i + k) mod N\<close> of the result is bit \<open>i\<close> of \<open>n\<close> for every \<open>i\<close> in \<open>[0, N)\<close>, and
  no bit at position \<open>N\<close> or above is set.
\<close>

theorem lcyc_rotates:
  assumes N: "1 \<le> N" and n0: "0 \<le> n" and nN: "n < 2 ^ nat N" and k0: "0 \<le> k" and kN: "k \<le> N"
  shows "\<exists>r. lcyc N n k = Inr r \<and>
           (\<forall>i. 0 \<le> i \<and> i < N \<longrightarrow> bit r (nat ((i + k) mod N)) = bit n (nat i)) \<and>
           (\<forall>j. nat N \<le> j \<longrightarrow> \<not> bit r j)"
proof -
  define r where "r = (drop_bit (nat (N - k)) n OR push_bit (nat k) n) AND mask (nat N)"
  have eq: "lcyc N n k = Inr r"
    using N k0 kN by (simp add: lcyc_def r_def mask_eq_exp_minus_1)
  have bits: "bit r j = (j < nat N \<and> (bit n (nat (N - k) + j) \<or> (nat k \<le> j \<and> bit n (j - nat k))))" for j
    by (auto simp add: r_def bit_and_iff bit_or_iff bit_drop_bit_eq bit_push_bit_iff bit_mask_iff)
  have rot: "bit r (nat ((i + k) mod N)) = bit n (nat i)" if "0 \<le> i" "i < N" for i
  proof (cases "i + k < N")
    case True
    then have m: "(i + k) mod N = i + k" using that k0 by simp
    have "nat (N - k) + nat (i + k) = nat (N + i)" using that k0 kN by simp
    moreover have "\<not> bit n (nat (N + i))"
      using bit_above_width [OF n0 nN, of "nat (N + i)"] that by simp
    moreover have "nat (i + k) - nat k = nat i" using that k0 by simp
    moreover have "nat k \<le> nat (i + k)" using that k0 by simp
    moreover have "nat (i + k) < nat N" using True that k0 by simp
    ultimately show ?thesis by (simp add: bits m)
  next
    case False
    then have m: "(i + k) mod N = i + k - N"
      using that kN by (intro mod_wrap_once) simp_all
    have "nat (N - k) + nat (i + k - N) = nat i" using that k0 kN False by simp
    moreover have "\<not> nat k \<le> nat (i + k - N)" using that k0 kN False by simp
    moreover have "nat (i + k - N) < nat N" using that k0 kN False by simp
    ultimately show ?thesis by (simp add: bits m)
  qed
  show ?thesis using eq rot bits by auto
qed

theorem lcyc_rotates_witness:
  "(1::int) \<le> 6 \<and> (0::int) \<le> 5 \<and> (5::int) < 2 ^ nat 6 \<and> (0::int) \<le> 2 \<and> (2::int) \<le> 6 \<and>
   lcyc 6 5 2 = Inr 20 \<and>
   (\<exists>r. lcyc 6 5 2 = Inr r \<and>
      (\<forall>i. 0 \<le> i \<and> i < 6 \<longrightarrow> bit r (nat ((i + 2) mod 6)) = bit (5::int) (nat i)) \<and>
      (\<forall>j. nat 6 \<le> j \<longrightarrow> \<not> bit r j))"
proof -
  have e: "lcyc 6 5 2 = Inr 20" by (simp add: lcyc_def)
  show ?thesis using lcyc_rotates [of 6 5 2] e by simp
qed

section \<open>Indexing and slicing the history\<close>

lemma py_index_last: "vs \<noteq> [] \<Longrightarrow> py_index vs (- 1) = Inr (last vs)"
  by (cases vs rule: rev_cases) (simp_all add: py_index_def nth_append)

lemma py_index_snoc: "py_index (xs @ [v]) (- 1) = Inr v"
  by (simp add: py_index_last)

lemma py_slice_last: "vs \<noteq> [] \<Longrightarrow> py_slice_from vs (- 1) = [last vs]"
  by (cases vs rule: rev_cases) (simp_all add: py_slice_from_def)

lemma py_slice_nonempty: "vs \<noteq> [] \<Longrightarrow> 1 \<le> h \<Longrightarrow> py_slice_from vs (- h) \<noteq> []"
  by (auto simp add: py_slice_from_def Let_def max_def)

lemma exc_loop_last:
  assumes "vs \<noteq> []"
  shows "exc_loop N e vs xs acc =
           (if xs = [] then Inr acc
            else (case lcyc N e (last vs) of Inl er \<Rightarrow> Inl er | Inr r \<Rightarrow> Inr (acc OR r)))"
proof (induction xs arbitrary: acc)
  case Nil
  show ?case by simp
next
  case (Cons x xs)
  show ?case
    by (simp add: py_index_last [OF assms] Cons.IH or.assoc split: sum.splits)
qed

section \<open>The history length of ChaosGameHistExc\<close>

text \<open>
  Claim C10. In \<^verbatim>\<open>ChaosGameHistExc.choose_vertex\<close>, for \<open>hist_len \<ge> 1\<close> and a
  non-empty history, the forbidden mask that the loop builds is
  \<open>lcyc num_targets excluded\<close> of the last history entry alone, whatever
  \<open>hist_len\<close> is: the selector with \<open>hist_len = k\<close> returns what the selector with
  \<open>hist_len = 1\<close> returns, on every history and every draw.
\<close>

theorem hist_len_irrelevant:
  assumes "1 \<le> hist_len" and "vs \<noteq> []"
  shows "exc_loop N e vs (py_slice_from vs (- hist_len)) 0 = lcyc N e (last vs) \<and>
         choose_vertex (ChaosGameHistExc hist_len e) N vs src i =
           choose_vertex (ChaosGameHistExc 1 e) N vs src i"
proof -
  have a: "exc_loop N e vs (py_slice_from vs (- h)) 0 = lcyc N e (last vs)" if "1 \<le> h" for h
    using py_slice_nonempty [OF assms(2) that]
    by (simp add: exc_loop_last [OF assms(2)] split: sum.splits)
  show ?thesis
    using a [OF assms(1)] a [of 1] by (simp add: choose_vertex_def)
qed

theorem hist_len_irrelevant_witness:
  "(1::int) \<le> 3 \<and> [0, 4, 2] \<noteq> ([]::int list) \<and>
   exc_loop 6 1 [0, 4, 2] (py_slice_from [0, 4, 2] (- 3)) 0 = lcyc 6 1 (last [0, 4, 2]) \<and>
   choose_vertex (ChaosGameHistExc 3 1) 6 [0, 4, 2] (\<lambda>_. 0) 0 =
     choose_vertex (ChaosGameHistExc 1 1) 6 [0, 4, 2] (\<lambda>_. 0) 0 \<and>
   choose_vertex (ChaosGameHistExc 1 1) 6 [0, 4, 2] (\<lambda>_. 0) 0 = Inr (0, Suc 0)"
proof -
  have c: "choose_vertex (ChaosGameHistExc 1 1) 6 [0, 4, 2] (\<lambda>_. 0) 0 = Inr (0, Suc 0)"
    by (simp add: choose_vertex_def py_slice_from_def py_index_def lcyc_def verts_avail_def
        upto_rec1 pick_avail_def randint_def)
  show ?thesis using hist_len_irrelevant [of 3 "[0, 4, 2]" 6 1 "\<lambda>_. 0" 0] c by simp
qed

section \<open>Drawing among the available vertices\<close>

lemma floor_scaled:
  fixes u :: real
  assumes "0 \<le> u" "u < 1" "0 < k"
  shows "0 \<le> \<lfloor>u * of_int k\<rfloor> \<and> \<lfloor>u * of_int k\<rfloor> < k"
proof -
  have "0 \<le> u * of_int k" using assms by simp
  moreover have "u * of_int k < of_int k" using assms by simp
  ultimately show ?thesis by (simp add: floor_less_iff)
qed

lemma randint_in_range:
  assumes "0 \<le> src i" "src i < 1" "a \<le> b"
  shows "\<exists>r. randint src i a b = Inr (r, Suc i) \<and> a \<le> r \<and> r \<le> b"
  using floor_scaled [OF assms(1,2), of "b - a + 1"] assms(3)
  by (simp add: randint_def)

lemma randint_empty: "b < a \<Longrightarrow> randint src i a b = Inl ValueError"
  by (simp add: randint_def)

lemma pick_avail_empty: "pick_avail [] src i = Inl ValueError"
  by (simp add: pick_avail_def randint_def)

lemma pick_avail_member:
  assumes "0 \<le> src i" "src i < 1" "avail \<noteq> []"
  shows "\<exists>v \<in> set avail. pick_avail avail src i = Inr (v, Suc i)"
proof -
  have "0 \<le> int (length avail) - 1" using assms(3) by (cases avail) simp_all
  from randint_in_range [of src i 0 "int (length avail) - 1", OF assms(1,2) this]
  obtain r where r: "randint src i 0 (int (length avail) - 1) = Inr (r, Suc i)"
    "0 \<le> r" "r < int (length avail)" by auto
  then have "py_index avail r = Inr (avail ! nat r)" by (simp add: py_index_def)
  moreover have "avail ! nat r \<in> set avail" using r by simp
  ultimately show ?thesis using r(1) by (auto simp add: pick_avail_def)
qed

lemma pick_avail_reaches:
  assumes "t < length avail"
  shows "pick_avail avail (\<lambda>_. real t / real (length avail)) i = Inr (avail ! t, Suc i)"
proof -
  have ne: "avail \<noteq> []" using assms by auto
  then have "real t / real (length avail) * real (length avail) = real t"
    by simp
  then have "\<lfloor>real t / real (length avail) * real (length avail)\<rfloor> = int t"
    by simp
  then show ?thesis using assms ne
    by (simp add: pick_avail_def randint_def py_index_def)
qed

lemma verts_avail_one_bit:
  assumes "0 \<le> v" "v < 6"
  shows "verts_avail 6 (2 ^ nat v) = filter (\<lambda>j. j \<noteq> v) [0..5]"
proof -
  from assms have "v = 0 \<or> v = 1 \<or> v = 2 \<or> v = 3 \<or> v = 4 \<or> v = 5" by arith
  then show ?thesis
    by (elim disjE) (simp_all add: verts_avail_def upto_rec1)
qed

lemma pick_avail_surj:
  assumes "w \<in> set avail"
  shows "\<exists>u. 0 \<le> u \<and> u < 1 \<and> pick_avail avail (\<lambda>_. u) i = Inr (w, Suc i)"
proof -
  from assms obtain t where t: "t < length avail" "avail ! t = w"
    by (auto simp add: in_set_conv_nth)
  let ?u = "real t / real (length avail)"
  have "0 \<le> ?u" by simp
  moreover have "?u < 1" using t(1) by (simp add: divide_simps)
  moreover have "pick_avail avail (\<lambda>_. ?u) i = Inr (w, Suc i)"
    using pick_avail_reaches [OF t(1), of i] t(2) by simp
  ultimately show ?thesis by blast
qed

lemma lcyc_one_bit:
  assumes "0 \<le> v" "v < 6"
  shows "lcyc 6 1 v = Inr (2 ^ nat v)"
proof -
  from assms have "v = 0 \<or> v = 1 \<or> v = 2 \<or> v = 3 \<or> v = 4 \<or> v = 5" by arith
  then show ?thesis
    by (elim disjE) (simp_all add: lcyc_def)
qed

lemma exc_loop_single:
  assumes "vs \<noteq> []"
  shows "exc_loop N e vs (py_slice_from vs (- 1)) 0 = lcyc N e (last vs)"
  by (simp add: py_slice_last [OF assms] py_index_last [OF assms] split: sum.splits)

lemma pick_avail_cases:
  assumes "0 \<le> src i" "src i < 1"
  shows "if avail = [] then pick_avail avail src i = Inl ValueError
         else \<exists>v \<in> set avail. pick_avail avail src i = Inr (v, Suc i)"
  using pick_avail_member [of src i avail, OF assms] by (simp add: pick_avail_empty)

section \<open>Excluding the vertex just chosen\<close>

text \<open>
  Claim C8. With \<^verbatim>\<open>excluded=[0]\<close>, \<^verbatim>\<open>hist_len=1\<close> and \<^verbatim>\<open>num_targets=6\<close>, when
  the last history entry is \<open>v\<close> (a vertex index below 6), the forbidden mask has
  only bit \<open>v\<close> set, the available vertices are all indices below 6 but \<open>v\<close>, the
  selector never returns \<open>v\<close>, and every other index below 6 is returned for some
  draw in \<open>[0, 1)\<close>.
\<close>

theorem exclusion_single_vertex:
  assumes "vs \<noteq> []" and "last vs = v" and "0 \<le> v" and "v < 6"
  shows "exc_loop 6 (excluded_mask [0]) vs (py_slice_from vs (- 1)) 0 = Inr (2 ^ nat v) \<and>
         verts_avail 6 (2 ^ nat v) = filter (\<lambda>j. j \<noteq> v) [0..5] \<and>
         (\<forall>src i. 0 \<le> src i \<and> src i < 1 \<longrightarrow>
            (\<exists>w. choose_vertex (ChaosGameHistExc 1 (excluded_mask [0])) 6 vs src i = Inr (w, Suc i) \<and>
                 w \<noteq> v \<and> 0 \<le> w \<and> w < 6)) \<and>
         (\<forall>w i. 0 \<le> w \<and> w < 6 \<and> w \<noteq> v \<longrightarrow>
            (\<exists>u. 0 \<le> u \<and> u < 1 \<and>
                 choose_vertex (ChaosGameHistExc 1 (excluded_mask [0])) 6 vs (\<lambda>_. u) i = Inr (w, Suc i)))"
proof -
  let ?avail = "filter (\<lambda>j. j \<noteq> v) [0..5]"
  have m: "excluded_mask [0] = 1" by (simp add: excluded_mask_def)
  have e: "exc_loop 6 1 vs (py_slice_from vs (- 1)) 0 = Inr (2 ^ nat v)"
    using exc_loop_single [OF assms(1), of 6 1] lcyc_one_bit [OF assms(3,4)] assms(2) by simp
  have a: "verts_avail 6 (2 ^ nat v) = ?avail"
    by (rule verts_avail_one_bit [OF assms(3,4)])
  have c: "choose_vertex (ChaosGameHistExc 1 1) 6 vs src i = pick_avail ?avail src i" for src i
    using e a by (simp add: choose_vertex_def)
  have ne: "?avail \<noteq> []"
    using assms(3,4) by (cases "v = 0") (simp_all add: upto_rec1)
  have s: "set ?avail = {w. 0 \<le> w \<and> w < 6 \<and> w \<noteq> v}" by auto
  have never: "\<exists>w. choose_vertex (ChaosGameHistExc 1 1) 6 vs src i = Inr (w, Suc i) \<and>
      w \<noteq> v \<and> 0 \<le> w \<and> w < 6" if "0 \<le> src i" "src i < 1" for src i
  proof -
    from pick_avail_member [of src i ?avail, OF that ne]
    obtain w where "w \<in> set ?avail" "pick_avail ?avail src i = Inr (w, Suc i)" by blast
    then show ?thesis unfolding c using s by auto
  qed
  have any: "\<exists>u. 0 \<le> u \<and> u < 1 \<and>
      choose_vertex (ChaosGameHistExc 1 1) 6 vs (\<lambda>_. u) i = Inr (w, Suc i)"
    if "0 \<le> w" "w < 6" "w \<noteq> v" for w i
  proof -
    have "w \<in> set ?avail" using that s by simp
    from pick_avail_surj [OF this, of i] show ?thesis unfolding c .
  qed
  show ?thesis using e a never any unfolding m by blast
qed

theorem exclusion_single_vertex_witness:
  "[0, 0, 2] \<noteq> ([]::int list) \<and> last [0, 0, 2] = (2::int) \<and> (0::int) \<le> 2 \<and> (2::int) < 6 \<and>
   exc_loop 6 (excluded_mask [0]) [0, 0, 2] (py_slice_from [0, 0, 2] (- 1)) 0 = Inr 4 \<and>
   verts_avail 6 4 = [0, 1, 3, 4, 5] \<and>
   (\<exists>w. choose_vertex (ChaosGameHistExc 1 (excluded_mask [0])) 6 [0, 0, 2] (\<lambda>_. 1 / 2) 0
           = Inr (w, Suc 0) \<and> w \<noteq> 2 \<and> 0 \<le> w \<and> w < 6) \<and>
   (\<exists>u. 0 \<le> u \<and> u < 1 \<and>
      choose_vertex (ChaosGameHistExc 1 (excluded_mask [0])) 6 [0, 0, 2] (\<lambda>_. u) 0 = Inr (5, Suc 0))"
proof -
  have h: "[0, 0, 2] \<noteq> ([]::int list)" "last [0, 0, 2] = (2::int)" "(0::int) \<le> 2" "(2::int) < 6"
    by simp_all
  note t = exclusion_single_vertex [OF h]
  from t have a: "exc_loop 6 (excluded_mask [0]) [0, 0, 2] (py_slice_from [0, 0, 2] (- 1)) 0 = Inr 4"
    by simp
  from t have b: "verts_avail 6 4 = [0, 1, 3, 4, 5]" by (simp add: upto_rec1)
  from t have "\<forall>src i. 0 \<le> src i \<and> src i < 1 \<longrightarrow>
      (\<exists>w. choose_vertex (ChaosGameHistExc 1 (excluded_mask [0])) 6 [0, 0, 2] src i = Inr (w, Suc i) \<and>
           w \<noteq> 2 \<and> 0 \<le> w \<and> w < 6)" by blast
  from this [rule_format, of "\<lambda>_. 1 / 2" 0]
  have c: "\<exists>w. choose_vertex (ChaosGameHistExc 1 (excluded_mask [0])) 6 [0, 0, 2] (\<lambda>_. 1 / 2) 0
           = Inr (w, Suc 0) \<and> w \<noteq> 2 \<and> 0 \<le> w \<and> w < 6" by simp
  from t have "\<forall>w i. 0 \<le> w \<and> w < 6 \<and> w \<noteq> 2 \<longrightarrow>
      (\<exists>u. 0 \<le> u \<and> u < 1 \<and>
         choose_vertex (ChaosGameHistExc 1 (excluded_mask [0])) 6 [0, 0, 2] (\<lambda>_. u) i = Inr (w, Suc i))"
    by blast
  from this [rule_format, of 5 0]
  have d: "\<exists>u. 0 \<le> u \<and> u < 1 \<and>
      choose_vertex (ChaosGameHistExc 1 (excluded_mask [0])) 6 [0, 0, 2] (\<lambda>_. u) 0 = Inr (5, Suc 0)"
    by simp
  show ?thesis using a b c d by simp
qed

section \<open>A mask that forbids every vertex\<close>

text \<open>
  Claim C4, as amended. The exclusion list is not checked when the object is
  constructed: the constructors of the two history-aware classes fail exactly when
  the quality preset is unknown (KeyError) or \<open>num_targets \<le> 0\<close> (TypeError from
  the scatter call), whatever the exclusion list. At selection time, with a draw in \<open>[0, 1)\<close>:
  when the forbidden mask of the step leaves no vertex available,
  \<^verbatim>\<open>choose_vertex\<close> raises ValueError (\<^verbatim>\<open>randint\<close> on an empty range); when at
  least one vertex is available, it returns one of the available vertices. When
  \<^verbatim>\<open>ChaosGameHistExc2\<close> sees two different last entries, every index below
  \<open>num_targets\<close> is available and it returns one of them.
\<close>

theorem choose_vertex_available:
  assumes "0 \<le> src i" and "src i < 1"
  shows "(exc_loop N e vs (py_slice_from vs (- hl)) 0 = Inr exc \<longrightarrow>
            (if verts_avail N exc = []
             then choose_vertex (ChaosGameHistExc hl e) N vs src i = Inl ValueError
             else \<exists>v \<in> set (verts_avail N exc).
                    choose_vertex (ChaosGameHistExc hl e) N vs src i = Inr (v, Suc i))) \<and>
         (py_index ws (- 1) = Inr a \<and> py_index ws (- 2) = Inr a \<and> lcyc N e a = Inr exc \<longrightarrow>
            (if verts_avail N exc = []
             then choose_vertex (ChaosGameHistExc2 e) N ws src i = Inl ValueError
             else \<exists>v \<in> set (verts_avail N exc).
                    choose_vertex (ChaosGameHistExc2 e) N ws src i = Inr (v, Suc i))) \<and>
         (py_index us (- 1) = Inr b \<and> py_index us (- 2) = Inr c \<and> b \<noteq> c \<longrightarrow>
            (if N \<le> 0
             then choose_vertex (ChaosGameHistExc2 e) N us src i = Inl ValueError
             else \<exists>v. choose_vertex (ChaosGameHistExc2 e) N us src i = Inr (v, Suc i) \<and>
                      0 \<le> v \<and> v < N)) \<and>
         isl (ChaosGameHistExc_init hl excluded q N ts col) = (isl (point_size_of q) \<or> N \<le> 0) \<and>
         isl (ChaosGameHistExc2_init excluded q N ts col) = (isl (point_size_of q) \<or> N \<le> 0)"
proof -
  note pk = pick_avail_cases [of src i, OF assms]
  have 1: "exc_loop N e vs (py_slice_from vs (- hl)) 0 = Inr exc \<longrightarrow>
            (if verts_avail N exc = []
             then choose_vertex (ChaosGameHistExc hl e) N vs src i = Inl ValueError
             else \<exists>v \<in> set (verts_avail N exc).
                    choose_vertex (ChaosGameHistExc hl e) N vs src i = Inr (v, Suc i))"
    using pk [of "verts_avail N exc"] by (simp add: choose_vertex_def pick_avail_empty)
  have 2: "py_index ws (- 1) = Inr a \<and> py_index ws (- 2) = Inr a \<and> lcyc N e a = Inr exc \<longrightarrow>
            (if verts_avail N exc = []
             then choose_vertex (ChaosGameHistExc2 e) N ws src i = Inl ValueError
             else \<exists>v \<in> set (verts_avail N exc).
                    choose_vertex (ChaosGameHistExc2 e) N ws src i = Inr (v, Suc i))"
    using pk [of "verts_avail N exc"] by (simp add: choose_vertex_def pick_avail_empty)
  have 3: "py_index us (- 1) = Inr b \<and> py_index us (- 2) = Inr c \<and> b \<noteq> c \<longrightarrow>
            (if N \<le> 0
             then choose_vertex (ChaosGameHistExc2 e) N us src i = Inl ValueError
             else \<exists>v. choose_vertex (ChaosGameHistExc2 e) N us src i = Inr (v, Suc i) \<and>
                      0 \<le> v \<and> v < N)"
  proof (cases "N \<le> 0")
    case True
    then show ?thesis by (simp add: choose_vertex_def randint_def)
  next
    case False
    then have "0 \<le> N - 1" by simp
    from randint_in_range [of src i 0 "N - 1", OF assms this] False
    show ?thesis by (auto simp add: choose_vertex_def)
  qed
  have 4: "isl (ChaosGameHistExc_init hl excluded q N ts col) = (isl (point_size_of q) \<or> N \<le> 0)"
    by (simp add: ChaosGameHistExc_init_def init_as_def make_vertices_Nil split: sum.splits)
  have 5: "isl (ChaosGameHistExc2_init excluded q N ts col) = (isl (point_size_of q) \<or> N \<le> 0)"
    by (simp add: ChaosGameHistExc2_init_def init_as_def make_vertices_Nil split: sum.splits)
  show ?thesis using 1 2 3 4 5 by blast
qed

theorem choose_vertex_available_witness:
  "(0::real) \<le> 1 / 2 \<and> (1 / 2 :: real) < 1 \<and>
   exc_loop 6 1 [0, 0, 2] (py_slice_from [0, 0, 2] (- 1)) 0 = Inr 4 \<and>
   verts_avail 6 4 = [0, 1, 3, 4, 5] \<and>
   choose_vertex (ChaosGameHistExc 1 1) 6 [0, 0, 2] (\<lambda>_. 1 / 2) 0 = Inr (3, Suc 0) \<and>
   py_index [0, 2, 2] (- 1) = Inr (2::int) \<and> py_index [0, 2, 2] (- 2) = Inr (2::int) \<and>
   lcyc 6 1 2 = Inr 4 \<and>
   choose_vertex (ChaosGameHistExc2 1) 6 [0, 2, 2] (\<lambda>_. 1 / 2) 0 = Inr (3, Suc 0) \<and>
   py_index [0, 1, 2] (- 1) = Inr (2::int) \<and> py_index [0, 1, 2] (- 2) = Inr (1::int) \<and>
   choose_vertex (ChaosGameHistExc2 1) 6 [0, 1, 2] (\<lambda>_. 1 / 2) 0 = Inr (3, Suc 0) \<and>
   \<not> isl (ChaosGameHistExc_init 1 [0] (QualitySize 1) 6 [] []) \<and>
   \<not> isl (ChaosGameHistExc2_init [0] (QualitySize 1) 6 [] [])"
proof -
  have h: "(0::real) \<le> (\<lambda>_::nat. 1 / 2) 0" "(\<lambda>_::nat. 1 / 2 :: real) 0 < 1" by simp_all
  note t = choose_vertex_available [of "\<lambda>_. 1 / 2" 0 6 1 "[0, 0, 2]" 1 4 "[0, 2, 2]" 2
      "[0, 1, 2]" 2 1 "[0]" "QualitySize 1" "[]" "[]", OF h]
  have e: "exc_loop 6 1 [0, 0, 2] (py_slice_from [0, 0, 2] (- 1)) 0 = Inr 4"
    by (simp add: py_slice_from_def py_index_def lcyc_def)
  have a: "verts_avail 6 4 = [0, 1, 3, 4, 5]"
    by (simp add: verts_avail_def upto_rec1)
  have l: "lcyc 6 1 2 = Inr 4" by (simp add: lcyc_def)
  have c1: "choose_vertex (ChaosGameHistExc 1 1) 6 [0, 0, 2] (\<lambda>_. 1 / 2) 0 = Inr (3, Suc 0)"
    by (simp add: choose_vertex_def e a pick_avail_def randint_def py_index_def)
  have c2: "choose_vertex (ChaosGameHistExc2 1) 6 [0, 2, 2] (\<lambda>_. 1 / 2) 0 = Inr (3, Suc 0)"
    by (simp add: choose_vertex_def l a pick_avail_def randint_def py_index_def)
  have c3: "choose_vertex (ChaosGameHistExc2 1) 6 [0, 1, 2] (\<lambda>_. 1 / 2) 0 = Inr (3, Suc 0)"
    by (simp add: choose_vertex_def randint_def py_index_def)
  have p: "point_size_of (QualitySize 1) = Inr 1" by (simp add: point_size_of_def)
  show ?thesis using t e a l c1 c2 c3 p by (simp add: py_index_def)
qed

text \<open>
  The claim as stated fails: with three vertices and all three offsets excluded, the
  construction succeeds and the first selection raises ValueError.
\<close>

theorem exclusion_all_counterexample:
  "\<not> isl (ChaosGameHistExc_init 1 [0, 1, 2] (QualitySize 1) 3
            [\<lparr>scale = 1 / 2, rotation = 0, prob = 1\<rparr>] []) \<and>
   generate_after (ChaosGameHistExc_init 1 [0, 1, 2] (QualitySize 1) 3
            [\<lparr>scale = 1 / 2, rotation = 0, prob = 1\<rparr>] []) (\<lambda>_. 0) 0 1 = Inl ValueError"
  by (simp add: ChaosGameHistExc_init_def init_as_vertices point_size_of_def generate_after_def
      generate_points_def step_def choose_vertex_def excluded_mask_def py_slice_from_def
      py_index_def lcyc_def verts_avail_def upto_rec1 pick_avail_def randint_def numeral_eq_Suc)

section \<open>Facts about one step\<close>

lemma walk_transforms_member:
  "walk_transforms p ts = Some t \<Longrightarrow> t \<in> set ts"
  by (induction ts arbitrary: p) (auto split: if_splits)

lemma walk_transforms_total:
  "0 \<le> p \<Longrightarrow> p < sum_list (map prob ts) \<Longrightarrow> \<exists>t \<in> set ts. walk_transforms p ts = Some t"
proof (induction ts arbitrary: p)
  case Nil
  then show ?case by simp
next
  case (Cons t ts)
  show ?case
  proof (cases "p < prob t")
    case True
    then show ?thesis by simp
  next
    case False
    with Cons.prems have "0 \<le> p - prob t" "p - prob t < sum_list (map prob ts)" by simp_all
    from Cons.IH [OF this] False show ?thesis by auto
  qed
qed

lemma py_index_single: "py_index [x] (- 1) = Inr x"
  by (simp add: py_index_def)

lemma py_slice_single: "py_slice_from [x] (- 1) = [x]"
  by (simp add: py_slice_from_def)

lemma step_base:
  assumes "klass s = ChaosGame"
  shows "step s src (vs, ps, i) =
     (case randint src i 0 (num_targets s - 1) of
        Inl er \<Rightarrow> Inl er
      | Inr (v, i1) \<Rightarrow>
          (case py_index (vertices s) v of
             Inl er \<Rightarrow> Inl er
           | Inr last_vert \<Rightarrow>
               (case walk_transforms (src i1) (transformations s) of
                  None \<Rightarrow> Inl AttributeError
                | Some tr \<Rightarrow>
                    (case py_index ps (- 1) of
                       Inl er \<Rightarrow> Inl er
                     | Inr lp \<Rightarrow>
                         Inr (py_slice_from vs 1 @ [v], ps @ [transform tr lp last_vert], Suc i1)))))"
  using assms
  by (simp add: step_def choose_vertex_def choose_transform_def py_random_def py_index_snoc
      split: sum.splits prod.splits option.splits)

lemma length_make_vertices: "length (make_vertices N) = nat N"
  by (simp add: make_vertices_def)

lemma make_vertices_first: "0 < N \<Longrightarrow> N mod 2 = 0 \<Longrightarrow> py_index (make_vertices N) 0 = Inr (1, 0)"
  by (simp add: py_index_def length_make_vertices) (simp add: make_vertices_def upto_rec1)

lemma color_of_corners:
  "color_of [[r0, g0, b0], [r1, g1, b1], [r2, g2, b2], [r3, g3, b3]] (px, py) =
     Inr (((r0 * (1 - (py + 1) / 2) + r1 * ((py + 1) / 2)) * ((px + 1) / 2)
             + (r2 * (1 - (py + 1) / 2) + r3 * ((py + 1) / 2)) * (1 - (px + 1) / 2)) / 256,
          ((g0 * (1 - (py + 1) / 2) + g1 * ((py + 1) / 2)) * ((px + 1) / 2)
             + (g2 * (1 - (py + 1) / 2) + g3 * ((py + 1) / 2)) * (1 - (px + 1) / 2)) / 256,
          ((b0 * (1 - (py + 1) / 2) + b1 * ((py + 1) / 2)) * ((px + 1) / 2)
             + (b2 * (1 - (py + 1) / 2) + b3 * ((py + 1) / 2)) * (1 - (px + 1) / 2)) / 256)"
  by (simp add: color_of_def channel_def corner_def py_index_def Let_def)

lemma transform_eq_spec_apply: "transform t p1 p2 = spec_apply t p1 p2"
  by (simp add: transform_def spec_apply_def Let_def algebra_simps)

lemma py_index_last_conv: "py_index ps (- 1) = Inr lp \<Longrightarrow> ps \<noteq> [] \<and> lp = last ps"
  by (cases ps rule: rev_cases) (simp_all add: py_index_def)

lemma step_success:
  assumes "step s src (vs, ps, i) = Inr (vs', ps', i')"
  shows "\<exists>v i1 vertex tr lp.
       py_index (vertices s) v = Inr vertex \<and>
       choose_transform (klass s) (transformations s) (ArgPoint vertex) src i1 = Inr (Some tr, i') \<and>
       py_index ps (- 1) = Inr lp \<and>
       vs' = py_slice_from vs 1 @ [v] \<and> ps' = ps @ [transform tr lp vertex]"
proof (cases "choose_vertex (klass s) (num_targets s) vs src i")
  case (Inl er)
  with assms show ?thesis by (simp add: step_def)
next
  case (Inr r)
  obtain v i1 where r: "r = (v, i1)" by (cases r)
  show ?thesis
  proof (cases "py_index (vertices s) v")
    case (Inl er)
    with assms Inr r show ?thesis by (simp add: step_def py_index_snoc)
  next
    case vx: (Inr vertex)
    show ?thesis
    proof (cases "choose_transform (klass s) (transformations s) (ArgPoint vertex) src i1")
      case (Inl er)
      with assms Inr r vx show ?thesis by (simp add: step_def py_index_snoc)
    next
      case ct: (Inr q)
      obtain o2 i2 where q: "q = (o2, i2)" by (cases q)
      show ?thesis
      proof (cases o2)
        case None
        with assms Inr r vx ct q show ?thesis by (simp add: step_def py_index_snoc)
      next
        case (Some tr)
        show ?thesis
        proof (cases "py_index ps (- 1)")
          case (Inl er)
          with assms Inr r vx ct q Some show ?thesis by (simp add: step_def py_index_snoc)
        next
          case lp: (Inr lp)
          with assms Inr r vx ct q Some
          have "vs' = py_slice_from vs 1 @ [v]" "ps' = ps @ [transform tr lp vertex]" "i' = i2"
            by (simp_all add: step_def py_index_snoc)
          with vx ct q Some lp show ?thesis by blast
        qed
      qed
    qed
  qed
qed

lemma step_moves_from_last_point:
  assumes "step s src (vs, ps, i) = Inr (vs', ps', i')"
  shows "\<exists>v vertex tr.
           vs' = py_slice_from vs 1 @ [v] \<and> py_index (vertices s) v = Inr vertex \<and>
           tr \<in> set (transformations s) \<and> ps \<noteq> [] \<and>
           ps' = ps @ [transform tr (last ps) vertex] \<and>
           transform tr (last ps) vertex =
             (fst (last ps) + (scale tr * (fst vertex - fst (last ps)) * cos (rotation tr)
                               - scale tr * (snd vertex - snd (last ps)) * sin (rotation tr)),
              snd (last ps) + (scale tr * (fst vertex - fst (last ps)) * sin (rotation tr)
                               + scale tr * (snd vertex - snd (last ps)) * cos (rotation tr)))"
proof -
  from step_success [OF assms] obtain v i1 vertex tr lp where
    s: "py_index (vertices s) v = Inr vertex"
       "choose_transform (klass s) (transformations s) (ArgPoint vertex) src i1 = Inr (Some tr, i')"
       "py_index ps (- 1) = Inr lp"
       "vs' = py_slice_from vs 1 @ [v]" "ps' = ps @ [transform tr lp vertex]"
    by blast
  from s(2) have m: "tr \<in> set (transformations s)"
    by (cases "klass s")
      (auto simp add: choose_transform_def py_random_def dest: walk_transforms_member)
  from py_index_last_conv [OF s(3)] have l: "ps \<noteq> []" "lp = last ps" by simp_all
  have f: "transform tr (last ps) vertex =
             (fst (last ps) + (scale tr * (fst vertex - fst (last ps)) * cos (rotation tr)
                               - scale tr * (snd vertex - snd (last ps)) * sin (rotation tr)),
              snd (last ps) + (scale tr * (fst vertex - fst (last ps)) * sin (rotation tr)
                               + scale tr * (snd vertex - snd (last ps)) * cos (rotation tr)))"
    by (simp only: transform_eq_spec_apply spec_apply_def)
  from s(1,4) m l s(5) f show ?thesis by blast
qed

lemma randint_zero: "0 \<le> b \<Longrightarrow> randint (\<lambda>_. 0) i 0 b = Inr (0, Suc i)"
  by (simp add: randint_def)

lemma quarter_step:
  "step \<lparr>klass = ChaosGame, point_size = 1, num_targets = 4,
          transformations = [\<lparr>scale = 1 / 4, rotation = 0, prob = 1\<rparr>],
          coloring = col, vertices = make_vertices 4, points = pts, colors = cs, verts = vo\<rparr>
        (\<lambda>_. 0) (vs, [(0, 0)], 0)
     = Inr (py_slice_from vs 1 @ [0], [(0, 0), (1 / 4, 0)], 2)"
  by (simp add: step_base randint_zero make_vertices_first py_index_single transform_def)

section \<open>The weighted choice of a transformation\<close>

text \<open>
  Claim C2. The claim says that the weighted chooser returns a transformation of the
  list for every draw, the last one when the weights sum to less than the draw. The
  loop of \<^verbatim>\<open>choose_transform\<close> has no such fallback: with weights \<open>1/2\<close> and
  \<open>1/4\<close> and the draw \<open>4/5\<close> it ends without returning, the result is \<^verbatim>\<open>None\<close>,
  and \<^verbatim>\<open>generate_points\<close> raises AttributeError on \<^verbatim>\<open>trans.transform\<close>.
  (\<open>walk_transforms_total\<close> above: a transformation is returned whenever the draw is
  below the sum of the weights.)
\<close>

theorem choose_transform_no_fallback:
  "choose_transform ChaosGame
     [\<lparr>scale = 1 / 2, rotation = 0, prob = 1 / 2\<rparr>, \<lparr>scale = 3 / 5, rotation = 0, prob = 1 / 4\<rparr>]
     (ArgPoint (1, 0)) (\<lambda>_. 4 / 5) 0 = Inr (None, Suc 0) \<and>
   generate_after
     (ChaosGame_init (QualitySize 1) 4
        [\<lparr>scale = 1 / 2, rotation = 0, prob = 1 / 2\<rparr>, \<lparr>scale = 3 / 5, rotation = 0, prob = 1 / 4\<rparr>]
        [[255, 0, 0], [0, 255, 0], [0, 0, 255], [255, 255, 0]])
     (\<lambda>_. 4 / 5) 0 1 = Inl AttributeError"
proof -
  have m: "py_index (make_vertices 4) 3 = Inr (make_vertices 4 ! 3)"
    by (simp add: py_index_def length_make_vertices)
  have r: "randint (\<lambda>_. 4 / 5) 0 0 3 = Inr (3, Suc 0)"
    by (simp add: randint_def)
  show ?thesis
    by (simp add: generate_after_def ChaosGame_init_def init_as_vertices point_size_of_def
        generate_points_def step_base r m choose_transform_def py_random_def)
qed

section \<open>The transformation indexed by the vertex\<close>

text \<open>
  Claim C3. The claim says that \<^verbatim>\<open>ChaosGameTargetTransform\<close> applies
  \<^verbatim>\<open>transformations[v]\<close> for the chosen vertex index \<open>v\<close>. \<^verbatim>\<open>generate_points\<close>
  passes the coordinates of the vertex, not its index, so indexing the list raises
  TypeError: no step of this class ever succeeds, and the first call on four vertices
  and four transformations raises TypeError.
\<close>

theorem target_transform_raises:
  "isl (step (s\<lparr>klass := ChaosGameTargetTransform\<rparr>) src st) \<and>
   generate_after
     (ChaosGameTargetTransform_init (QualitySize 1) 4
        [\<lparr>scale = 1 / 2, rotation = 0, prob = 1\<rparr>, \<lparr>scale = 1 / 2, rotation = 0, prob = 1\<rparr>,
         \<lparr>scale = 1 / 2, rotation = 0, prob = 1\<rparr>, \<lparr>scale = 1 / 2, rotation = 0, prob = 1\<rparr>]
        [[255, 0, 0], [0, 255, 0], [0, 0, 255], [255, 255, 0]])
     (\<lambda>_. 0) 0 1 = Inl TypeError"
proof -
  have a: "isl (step (s\<lparr>klass := ChaosGameTargetTransform\<rparr>) src st)"
    by (cases st) (simp add: step_def choose_transform_def Let_def split: sum.splits prod.splits)
  have r: "randint (\<lambda>_. 0) 0 0 3 = Inr (0, Suc 0)"
    by (simp add: randint_def)
  have b: "generate_after
     (ChaosGameTargetTransform_init (QualitySize 1) 4 ts col) (\<lambda>_. 0) 0 1 = Inl TypeError" for ts col
    by (simp add: generate_after_def ChaosGameTargetTransform_init_def init_as_vertices point_size_of_def
        generate_points_def step_def choose_vertex_def r py_index_snoc make_vertices_first
        choose_transform_def)
  show ?thesis using a b by simp
qed

section \<open>Construction does not look at the weights\<close>

text \<open>
  Claim C5, as amended. \<^verbatim>\<open>__init__\<close> validates nothing about the weights: for a
  known quality preset or a numeric size, and at least one vertex
  (\<open>num_targets \<ge> 1\<close>), the construction succeeds whatever the weights of the
  transformations are, and stores the list unchanged, with the single point
  \<open>(0, 0)\<close> and no colours.
\<close>

theorem init_accepts_any_weights:
  assumes "point_size_of q = Inr sz" and "1 \<le> N"
  shows "\<exists>s. ChaosGame_init q N ts col = Inr s \<and> transformations s = ts \<and> num_targets s = N \<and>
             point_size s = sz \<and> points s = [(0, 0)] \<and> colors s = []"
  using assms by (simp add: ChaosGame_init_def init_as_vertices)

theorem init_accepts_any_weights_witness:
  "point_size_of (QualityName ''fine'') = Inr (1 / 20) \<and> (1::int) \<le> 6 \<and>
   sum_list (map prob [\<lparr>scale = 1 / 2, rotation = 0, prob = 1 / 2\<rparr>,
                       \<lparr>scale = 3 / 5, rotation = 0, prob = 499999 / 1000000\<rparr>]) = 999999 / 1000000 \<and>
   (\<exists>s. ChaosGame_init (QualityName ''fine'') 6
           [\<lparr>scale = 1 / 2, rotation = 0, prob = 1 / 2\<rparr>,
            \<lparr>scale = 3 / 5, rotation = 0, prob = 499999 / 1000000\<rparr>]
           [[255, 0, 0], [0, 255, 0], [0, 0, 255], [255, 255, 0]] = Inr s \<and>
        transformations s = [\<lparr>scale = 1 / 2, rotation = 0, prob = 1 / 2\<rparr>,
                             \<lparr>scale = 3 / 5, rotation = 0, prob = 499999 / 1000000\<rparr>] \<and>
        num_targets s = 6 \<and> point_size s = 1 / 20 \<and> points s = [(0, 0)] \<and> colors s = [])"
proof -
  have h: "point_size_of (QualityName ''fine'') = Inr (1 / 20)"
    by (simp add: point_size_of_def)
  have n: "(1::int) \<le> 6" by simp
  show ?thesis using init_accepts_any_weights [OF h n] h by simp
qed

text \<open>
  The claim as stated fails: weights that sum to \<open>1/2\<close> are accepted.
\<close>

theorem init_half_weights_counterexample:
  "sum_list (map prob [\<lparr>scale = 1 / 2, rotation = 0, prob = 1 / 4\<rparr>,
                       \<lparr>scale = 3 / 5, rotation = 0, prob = 1 / 4\<rparr>]) = 1 / 2 \<and>
   \<not> isl (ChaosGame_init (QualityName ''fine'') 6
           [\<lparr>scale = 1 / 2, rotation = 0, prob = 1 / 4\<rparr>,
            \<lparr>scale = 3 / 5, rotation = 0, prob = 1 / 4\<rparr>]
           [[255, 0, 0], [0, 255, 0], [0, 0, 255], [255, 255, 0]])"
  by (simp add: ChaosGame_init_def init_as_vertices point_size_of_def)

section \<open>The new point of a step\<close>

text \<open>
  Claim C6, as amended. A step that succeeds chooses a vertex index \<open>v\<close> and a
  transformation \<open>tr\<close> of the list, and appends
  \<^verbatim>\<open>tr.transform(points[-1], vertices[v])\<close>, which is
  \<open>last_point + scale * R(rotation) * (vertices[v] - last_point)\<close>: the last point is
  the anchor, and the vertex is what is translated, scaled and rotated. A
  transformation with scale \<open>1/2\<close> and rotation \<open>0\<close>, with anchor \<open>(1, 0)\<close>, takes
  \<open>(0, 0)\<close> to \<open>(1/2, 0)\<close>.
\<close>

theorem step_new_point:
  assumes "step s src (vs, ps, i) = Inr (vs', ps', i')"
  shows "(\<exists>v vertex tr.
           vs' = py_slice_from vs 1 @ [v] \<and> py_index (vertices s) v = Inr vertex \<and>
           tr \<in> set (transformations s) \<and> ps \<noteq> [] \<and>
           ps' = ps @ [transform tr (last ps) vertex] \<and>
           transform tr (last ps) vertex =
             (fst (last ps) + (scale tr * (fst vertex - fst (last ps)) * cos (rotation tr)
                               - scale tr * (snd vertex - snd (last ps)) * sin (rotation tr)),
              snd (last ps) + (scale tr * (fst vertex - fst (last ps)) * sin (rotation tr)
                               + scale tr * (snd vertex - snd (last ps)) * cos (rotation tr)))) \<and>
         transform \<lparr>scale = 1 / 2, rotation = 0, prob = p\<rparr> (1, 0) (0, 0) = (1 / 2, 0)"
proof -
  have "transform \<lparr>scale = 1 / 2, rotation = 0, prob = p\<rparr> (1, 0) (0, 0) = (1 / 2, 0)"
    by (simp add: transform_def)
  with step_moves_from_last_point [OF assms] show ?thesis by blast
qed

theorem step_new_point_witness:
  "step \<lparr>klass = ChaosGame, point_size = 1, num_targets = 4,
          transformations = [\<lparr>scale = 1 / 4, rotation = 0, prob = 1\<rparr>],
          coloring = [], vertices = make_vertices 4, points = [(0, 0)], colors = [], verts = None\<rparr>
        (\<lambda>_. 0) ([0, 0, 0], [(0, 0)], 0)
     = Inr ([0, 0, 0], [(0, 0), (1 / 4, 0)], 2) \<and>
   (\<exists>v vertex tr.
      [0, 0, 0] = py_slice_from [0, 0, 0] 1 @ [v] \<and> py_index (make_vertices 4) v = Inr vertex \<and>
      tr \<in> set [\<lparr>scale = 1 / 4, rotation = 0, prob = 1\<rparr>] \<and>
      [(0, 0), (1 / 4, 0)] = [(0, 0)] @ [transform tr (last [(0, 0)]) vertex])"
proof -
  have h: "step \<lparr>klass = ChaosGame, point_size = 1, num_targets = 4,
          transformations = [\<lparr>scale = 1 / 4, rotation = 0, prob = 1\<rparr>],
          coloring = [], vertices = make_vertices 4, points = [(0, 0)], colors = [], verts = None\<rparr>
        (\<lambda>_. 0) ([0, 0, 0], [(0, 0)], 0)
     = Inr ([0, 0, 0], [(0, 0), (1 / 4, 0)], 2)"
    by (simp add: quarter_step py_slice_from_def)
  from step_new_point [OF h] h show ?thesis by simp blast
qed

text \<open>
  The claim as stated fails: with scale \<open>1/4\<close>, last point \<open>(0, 0)\<close> and vertex
  \<open>(1, 0)\<close> the step appends \<open>(1/4, 0)\<close>, where the contraction of the last point
  towards the vertex, \<open>vertices[v] + scale * R * (last_point - vertices[v])\<close>, is
  \<open>(3/4, 0)\<close>.
\<close>

theorem contraction_anchor_counterexample:
  "py_index (make_vertices 4) 0 = Inr (1, 0) \<and>
   points_of (generate_after
      (ChaosGame_init (QualitySize 1) 4 [\<lparr>scale = 1 / 4, rotation = 0, prob = 1\<rparr>]
         [[255, 0, 0], [0, 255, 0], [0, 0, 255], [255, 255, 0]]) (\<lambda>_. 0) 0 1)
     = Inr [(0, 0), (1 / 4, 0)] \<and>
   spec_apply \<lparr>scale = 1 / 4, rotation = 0, prob = 1\<rparr> (1, 0) (0, 0) = (3 / 4, 0)"
proof -
  have a: "py_index (make_vertices 4) 0 = Inr (1, 0)"
    by (simp add: make_vertices_first)
  have b: "spec_apply \<lparr>scale = 1 / 4, rotation = 0, prob = 1\<rparr> (1, 0) (0, 0) = (3 / 4, 0)"
    by (simp add: spec_apply_def)
  have c: "points_of (generate_after
      (ChaosGame_init (QualitySize 1) 4 [\<lparr>scale = 1 / 4, rotation = 0, prob = 1\<rparr>]
         [[255, 0, 0], [0, 255, 0], [0, 0, 255], [255, 255, 0]]) (\<lambda>_. 0) 0 1)
     = Inr [(0, 0), (1 / 4, 0)]"
    by (simp add: points_of_def generate_after_def ChaosGame_init_def init_as_vertices point_size_of_def
        generate_points_def py_slice_single quarter_step color_of_corners)
  show ?thesis using a b c by simp
qed

section \<open>The colour of a point\<close>

text \<open>
  Claim C9. The colour of the point \<open>(px, py)\<close> is computed from
  \<open>(x, y) = ((px+1)/2, (py+1)/2)\<close>, each channel being
  \<open>((c0 * (1-y) + c1 * y) * x + (c2 * (1-y) + c3 * y) * (1-x)) / 256\<close> over the four
  corners; for the point \<open>(0, 0)\<close> and the corners
  \<open>(255,0,0), (0,255,0), (0,0,255), (255,255,0)\<close> the red channel is
  \<open>((255 * 0.5 + 0 * 0.5) * 0.5 + (0 * 0.5 + 255 * 0.5) * 0.5) / 256 = 127.5 / 256\<close>.
  It is the colour that \<^verbatim>\<open>generate_points\<close> gives to the first point of a new
  object.
\<close>

theorem color_blend:
  "color_of [[r0, g0, b0], [r1, g1, b1], [r2, g2, b2], [r3, g3, b3]] (px, py) =
     (let x = (px + 1) / 2; y = (py + 1) / 2
      in Inr (((r0 * (1 - y) + r1 * y) * x + (r2 * (1 - y) + r3 * y) * (1 - x)) / 256,
              ((g0 * (1 - y) + g1 * y) * x + (g2 * (1 - y) + g3 * y) * (1 - x)) / 256,
              ((b0 * (1 - y) + b1 * y) * x + (b2 * (1 - y) + b3 * y) * (1 - x)) / 256)) \<and>
   map_sum id fst (color_of [[255, 0, 0], [0, 255, 0], [0, 0, 255], [255, 255, 0]] (0, 0)) =
     Inr (((255 * (1 / 2) + 0 * (1 / 2)) * (1 / 2) + (0 * (1 / 2) + 255 * (1 / 2)) * (1 / 2)) / 256) \<and>
   map_sum id fst (color_of [[255, 0, 0], [0, 255, 0], [0, 0, 255], [255, 255, 0]] (0, 0)) =
     Inr ((255 / 2) / 256) \<and>
   colors_of_result
     (generate_after
        (ChaosGame_init (QualitySize 1) 6 ts [[255, 0, 0], [0, 255, 0], [0, 0, 255], [255, 255, 0]])
        src i 0) = Inr [(255 / 512, 255 / 512, 255 / 1024)]"
proof -
  have g: "color_of [[r0, g0, b0], [r1, g1, b1], [r2, g2, b2], [r3, g3, b3]] (px, py) =
     (let x = (px + 1) / 2; y = (py + 1) / 2
      in Inr (((r0 * (1 - y) + r1 * y) * x + (r2 * (1 - y) + r3 * y) * (1 - x)) / 256,
              ((g0 * (1 - y) + g1 * y) * x + (g2 * (1 - y) + g3 * y) * (1 - x)) / 256,
              ((b0 * (1 - y) + b1 * y) * x + (b2 * (1 - y) + b3 * y) * (1 - x)) / 256))"
    by (simp add: color_of_corners Let_def)
  have r: "map_sum id fst (color_of [[255, 0, 0], [0, 255, 0], [0, 0, 255], [255, 255, 0]] (0, 0)) =
     Inr ((255 / 2) / 256)"
    by (simp add: color_of_corners)
  have s: "colors_of_result
     (generate_after
        (ChaosGame_init (QualitySize 1) 6 ts [[255, 0, 0], [0, 255, 0], [0, 0, 255], [255, 255, 0]])
        src i 0) = Inr [(255 / 512, 255 / 512, 255 / 1024)]"
    by (simp add: colors_of_result_def generate_after_def ChaosGame_init_def init_as_vertices
        point_size_of_def generate_points_def py_slice_single color_of_corners)
  show ?thesis using g r s by simp
qed

section \<open>Consecutive calls of generate_points\<close>






















end
